theory Spec2Isabelle
  imports Complex_Main
begin

section \<open>Data model\<close>

text \<open>
  The source is TypeScript; every numeric field has type \<open>number\<close>, an IEEE binary64
  value. Line counts are produced by \<open>Math.ceil\<close> and \<open>Math.max\<close> and are modelled
  as \<open>int\<close>; the measured line heights and paddings are finite doubles, which are
  rationals. The allocator is given twice, by the same translation of the source. In
  the first the heights are summed and compared exactly; there the one non-finite value
  is \<open>NaN\<close>, from \<open>0 / 0\<close> when a row has no cells, and a computed height is a
  \<open>rat option\<close> with \<open>None\<close> for \<open>NaN\<close>. In the second every operation rounds to
  the nearest double, as the source's do. The properties of the allocation that do not
  depend on how a height is computed are stated of the first and hold of both; the
  properties that depend on the sums are stated of the second. The DOM handles
  (\<open>element\<close>, \<open>content\<close>) of the source records carry no arithmetic and are left out.
\<close>

type_synonym number = "rat option"

record CellTextData =
  naturalLines :: int
  lineHeight :: rat
  cellPadding :: rat

record RowTextData =
  cells :: "CellTextData list"
  maxNaturalLines :: int
  minLines :: int


record PriorityItem =
  index :: nat
  remainingNeed :: int
  priority :: int

record LoopState =
  currentAllocation :: "int list"
  currentHeight :: number
  priorityIndex :: nat
  iterations :: nat

subsection \<open>Arithmetic and comparison with \<open>NaN\<close>\<close>

text \<open>\<open>NaN\<close> is absorbing for \<open>+\<close> and \<open>*\<close>, and every comparison with it is false.\<close>

definition num_add :: "number \<Rightarrow> number \<Rightarrow> number" where
  "num_add a b =
     (case a of None \<Rightarrow> None | Some x \<Rightarrow> (case b of None \<Rightarrow> None | Some y \<Rightarrow> Some (x + y)))"

definition num_mul :: "number \<Rightarrow> number \<Rightarrow> number" where
  "num_mul a b =
     (case a of None \<Rightarrow> None | Some x \<Rightarrow> (case b of None \<Rightarrow> None | Some y \<Rightarrow> Some (x * y)))"

definition num_le :: "number \<Rightarrow> rat \<Rightarrow> bool" where
  "num_le a b = (case a of None \<Rightarrow> False | Some x \<Rightarrow> x \<le> b)"

definition num_lt :: "number \<Rightarrow> rat \<Rightarrow> bool" where
  "num_lt a b = (case a of None \<Rightarrow> False | Some x \<Rightarrow> x < b)"

section \<open>IEEE binary64 arithmetic\<close>

text \<open>
  A JavaScript \<open>number\<close> is an IEEE 754 binary64 value: a finite double (a rational
  \<open>m * 2^e\<close> with \<open>\<bar>m\<bar> < 2^53\<close> and \<open>e \<ge> -1074\<close>), a signed zero, an infinity or
  \<open>NaN\<close>. \<open>Fin 0\<close> is \<open>+0\<close>. Every operation returns the exact result rounded to
  the nearest double, ties to the even significand, with overflow to the infinities and
  gradual underflow.
\<close>

datatype float64 = Fin rat | NegZero | PInf | NInf | NaN

definition isNaN :: "float64 \<Rightarrow> bool" where
  "isNaN a = (case a of NaN \<Rightarrow> True | _ \<Rightarrow> False)"

definition isInf :: "float64 \<Rightarrow> bool" where
  "isInf a = (case a of PInf \<Rightarrow> True | NInf \<Rightarrow> True | _ \<Rightarrow> False)"

definition isZero :: "float64 \<Rightarrow> bool" where
  "isZero a = (case a of Fin r \<Rightarrow> r = 0 | NegZero \<Rightarrow> True | _ \<Rightarrow> False)"

definition isNeg :: "float64 \<Rightarrow> bool" where
  "isNeg a = (case a of Fin r \<Rightarrow> r < 0 | NegZero \<Rightarrow> True | NInf \<Rightarrow> True | _ \<Rightarrow> False)"

definition finVal :: "float64 \<Rightarrow> rat" where
  "finVal a = (case a of Fin r \<Rightarrow> r | _ \<Rightarrow> 0)"

definition zero64 :: "bool \<Rightarrow> float64" where
  "zero64 neg = (if neg then NegZero else Fin 0)"

definition inf64 :: "bool \<Rightarrow> float64" where
  "inf64 neg = (if neg then NInf else PInf)"

subsection \<open>Rounding to the nearest double\<close>

text \<open>\<open>ilog2 n\<close> is the floor of the binary logarithm of \<open>n\<close> for \<open>n \<ge> 1\<close>.\<close>

function ilog2 :: "int \<Rightarrow> int" where
  "ilog2 n = (if n < 2 then 0 else 1 + ilog2 (n div 2))"
  by pat_completeness auto

termination
  by (relation "measure nat") auto

declare ilog2.simps [simp del]

definition pow2 :: "int \<Rightarrow> rat" where
  "pow2 e = (if 0 \<le> e then 2 ^ nat e else 1 / 2 ^ nat (- e))"

text \<open>The binary exponent (the floor of the binary logarithm of \<open>\<bar>x\<bar>\<close>) of a rational \<open>x \<noteq> 0\<close>.\<close>

definition expo :: "rat \<Rightarrow> int" where
  "expo x = (if 1 \<le> \<bar>x\<bar> then ilog2 \<lfloor>\<bar>x\<bar>\<rfloor> else - (ilog2 (\<lceil>1 / \<bar>x\<bar>\<rceil> - 1) + 1))"

definition roundHalfEven :: "rat \<Rightarrow> int" where
  "roundHalfEven y =
     (let f = \<lfloor>y\<rfloor>; d = y - of_int f
      in if d < 1 / 2 then f else if 1 / 2 < d then f + 1 else if even f then f else f + 1)"

text \<open>
  The spacing of the doubles around \<open>x\<close> is \<open>2^(e - 52)\<close> for the exponent \<open>e\<close> of \<open>x\<close>, and
  \<open>2^(-1074)\<close> below the normal range. A result of magnitude \<open>2^1024\<close> or more overflows; a
  nonzero value that rounds to zero keeps its sign.
\<close>

definition round64 :: "rat \<Rightarrow> float64" where
  "round64 x =
     (if x = 0 then Fin 0
      else
        let ulp = pow2 (max (expo x) (- 1022) - 52);
            r = of_int (roundHalfEven (x / ulp)) * ulp
        in if pow2 1024 \<le> \<bar>r\<bar> then inf64 (x < 0)
           else if r = 0 then zero64 (x < 0)
           else Fin r)"

subsection \<open>The operations the source uses\<close>

definition add64 :: "float64 \<Rightarrow> float64 \<Rightarrow> float64" where
  "add64 a b =
     (if isNaN a \<or> isNaN b then NaN
      else if isInf a \<and> isInf b then (if a = b then a else NaN)
      else if isInf a then a
      else if isInf b then b
      else if isZero a \<and> isZero b then zero64 (isNeg a \<and> isNeg b)
      else if finVal a + finVal b = 0 then Fin 0
      else round64 (finVal a + finVal b))"

definition neg64 :: "float64 \<Rightarrow> float64" where
  "neg64 a =
     (case a of Fin r \<Rightarrow> (if r = 0 then NegZero else Fin (- r))
      | NegZero \<Rightarrow> Fin 0 | PInf \<Rightarrow> NInf | NInf \<Rightarrow> PInf | NaN \<Rightarrow> NaN)"

definition sub64 :: "float64 \<Rightarrow> float64 \<Rightarrow> float64" where
  "sub64 a b = add64 a (neg64 b)"

definition mul64 :: "float64 \<Rightarrow> float64 \<Rightarrow> float64" where
  "mul64 a b =
     (if isNaN a \<or> isNaN b then NaN
      else if (isInf a \<and> isZero b) \<or> (isZero a \<and> isInf b) then NaN
      else if isInf a \<or> isInf b then inf64 (isNeg a \<noteq> isNeg b)
      else if isZero a \<or> isZero b then zero64 (isNeg a \<noteq> isNeg b)
      else round64 (finVal a * finVal b))"

definition div64 :: "float64 \<Rightarrow> float64 \<Rightarrow> float64" where
  "div64 a b =
     (if isNaN a \<or> isNaN b then NaN
      else if (isInf a \<and> isInf b) \<or> (isZero a \<and> isZero b) then NaN
      else if isInf a \<or> isZero b then inf64 (isNeg a \<noteq> isNeg b)
      else if isInf b \<or> isZero a then zero64 (isNeg a \<noteq> isNeg b)
      else round64 (finVal a / finVal b))"

text \<open>\<open>a <= b\<close> and \<open>a < b\<close>: false when either side is \<open>NaN\<close>; the two zeros are equal.\<close>

definition le64 :: "float64 \<Rightarrow> float64 \<Rightarrow> bool" where
  "le64 a b =
     (if isNaN a \<or> isNaN b then False
      else if a = NInf \<or> b = PInf then True
      else if a = PInf \<or> b = NInf then False
      else finVal a \<le> finVal b)"

definition lt64 :: "float64 \<Rightarrow> float64 \<Rightarrow> bool" where
  "lt64 a b =
     (if isNaN a \<or> isNaN b then False
      else if a = b then False
      else if a = NInf \<or> b = PInf then True
      else if a = PInf \<or> b = NInf then False
      else finVal a < finVal b)"

text \<open>
  \<open>Math.max(1, Math.ceil(q))\<close> when that is a finite number: it is \<open>NaN\<close> for \<open>NaN\<close>
  and \<open>Infinity\<close> for \<open>Infinity\<close>; the ceiling of \<open>-Infinity\<close> is \<open>-Infinity\<close>, below 1.
\<close>

definition maxOneCeil :: "float64 \<Rightarrow> int option" where
  "maxOneCeil q =
     (case q of Fin r \<Rightarrow> Some (max 1 \<lceil>r\<rceil>) | NegZero \<Rightarrow> Some 1 | NInf \<Rightarrow> Some 1
      | PInf \<Rightarrow> None | NaN \<Rightarrow> None)"

section \<open>The measurement aggregate of a row\<close>

text \<open>
  The per-row part of \<open>calculateGridWithLineClamp\<close> (the values returned by the
  outer \<open>rows.map\<close>), given the row's measured cells, in binary64 arithmetic as the
  source computes it: the two \<open>reduce\<close> sums start at \<open>0\<close> and add the cells from the
  left, each sum is divided by \<open>cellData.length\<close>, and line 88 takes
  \<open>Math.max(1, Math.ceil((160 - avgPadding) / avgLineHeight))\<close>. \<open>Math.max\<close> of no
  arguments is \<open>-Infinity\<close>; a row with no cells, or whose minimum is \<open>NaN\<close> or
  \<open>Infinity\<close>, has no finite line counts and the result is \<open>None\<close>.
\<close>

definition buildRowTextData :: "CellTextData list \<Rightarrow> RowTextData option" where
  "buildRowTextData cellData =
     (if cellData = [] then None
      else
        let maxNaturalLines = Max (set (map naturalLines cellData));
            avgLineHeight = div64 (foldl (\<lambda>sum c. add64 sum (Fin (lineHeight c))) (Fin 0) cellData)
                                  (Fin (of_nat (length cellData)));
            avgPadding = div64 (foldl (\<lambda>sum c. add64 sum (Fin (cellPadding c))) (Fin 0) cellData)
                               (Fin (of_nat (length cellData)))
        in
        case maxOneCeil (div64 (sub64 (Fin 160) avgPadding) avgLineHeight) of
          None \<Rightarrow> None
        | Some m \<Rightarrow> Some \<lparr>cells = cellData, maxNaturalLines = maxNaturalLines, minLines = m\<rparr>)"

section \<open>The line allocator in exact arithmetic\<close>

subsection \<open>\<open>getCurrentHeight\<close>\<close>

text \<open>
  \<open>cells.reduce((s, c) => s + c.lineHeight, 0) / cells.length\<close>: with no cells the
  sum is \<open>0\<close> and the quotient \<open>0 / 0\<close> is \<open>NaN\<close>.
\<close>

definition rowAvgLineHeight :: "RowTextData \<Rightarrow> number" where
  "rowAvgLineHeight row =
     (if cells row = [] then None
      else Some (foldl (\<lambda>s c. s + lineHeight c) 0 (cells row) / of_nat (length (cells row))))"

definition rowAvgPadding :: "RowTextData \<Rightarrow> number" where
  "rowAvgPadding row =
     (if cells row = [] then None
      else Some (foldl (\<lambda>s c. s + cellPadding c) 0 (cells row) / of_nat (length (cells row))))"

text \<open>
  \<open>allocation.reduce((sum, lines, index) => sum + lines * avg(rowTextData[index]) + pad(rowTextData[index]), 0)\<close>.
  Every allocation the source passes has one entry per row, so pairing the entries
  with the rows by position is the source's \<open>rowTextData[index]\<close>.
\<close>

definition getCurrentHeight :: "RowTextData list \<Rightarrow> int list \<Rightarrow> number" where
  "getCurrentHeight rowTextData allocation =
     foldl (\<lambda>sum (lines, row).
              num_add (num_add sum (num_mul (Some (of_int lines)) (rowAvgLineHeight row)))
                      (rowAvgPadding row))
           (Some 0) (zip allocation rowTextData)"

subsection \<open>Ideal allocation and priority order\<close>

definition idealAllocation :: "RowTextData list \<Rightarrow> int list" where
  "idealAllocation rowTextData = map (\<lambda>row. max (maxNaturalLines row) (minLines row)) rowTextData"

text \<open>
  \<open>.map(...).filter(item => item.remainingNeed > 0).sort((a, b) => b.priority - a.priority)\<close>:
  the sort is stable and descending in \<open>priority\<close>, which is an ascending stable sort
  on the negated key.
\<close>

definition rowPriorities :: "RowTextData list \<Rightarrow> PriorityItem list" where
  "rowPriorities rowTextData =
     sort_key (\<lambda>item. - priority item)
       (filter (\<lambda>item. remainingNeed item > 0)
         (map (\<lambda>(row, i).
                 \<lparr>index = i,
                  remainingNeed = max 0 (maxNaturalLines row - minLines row),
                  priority = maxNaturalLines row - minLines row\<rparr>)
              (zip rowTextData [0..<length rowTextData])))"

definition hasNeedyRows :: "RowTextData list \<Rightarrow> PriorityItem list \<Rightarrow> int list \<Rightarrow> bool" where
  "hasNeedyRows rowTextData prios allocation =
     list_ex (\<lambda>item. allocation ! index item < maxNaturalLines (rowTextData ! index item)) prios"

subsection \<open>The distribution loop\<close>

definition maxIterations :: nat where
  "maxIterations = 200"

text \<open>
  One pass through the body of the \<open>while\<close> loop, entered with the loop condition
  true. The flag is \<open>False\<close> when the body leaves through \<open>break\<close>. The first branch
  is the source's \<open>continue\<close>: it moves the pointer and skips both the wrap-around
  test and \<open>iterations++\<close>.
\<close>

definition loopStep ::
  "RowTextData list \<Rightarrow> rat \<Rightarrow> PriorityItem list \<Rightarrow> LoopState \<Rightarrow> LoopState \<times> bool" where
  "loopStep rowTextData maxTotalHeight prios st =
     (let rowIndex = index (prios ! priorityIndex st);
          row = rowTextData ! rowIndex
      in
      if currentAllocation st ! rowIndex \<ge> maxNaturalLines row then
        (st\<lparr>priorityIndex := priorityIndex st + 1\<rparr>, True)
      else
        let testAllocation = (currentAllocation st)[rowIndex := currentAllocation st ! rowIndex + 1];
            testHeight = getCurrentHeight rowTextData testAllocation;
            st1 = (if num_le testHeight maxTotalHeight then
                     (if testAllocation ! rowIndex \<ge> maxNaturalLines row
                      then st\<lparr>currentAllocation := testAllocation, currentHeight := testHeight,
                              priorityIndex := priorityIndex st + 1\<rparr>
                      else st\<lparr>currentAllocation := testAllocation, currentHeight := testHeight\<rparr>)
                   else st\<lparr>priorityIndex := priorityIndex st + 1\<rparr>)
        in
        if priorityIndex st1 \<ge> length prios then
          (if \<not> hasNeedyRows rowTextData prios (currentAllocation st1)
           then (st1\<lparr>priorityIndex := 0\<rparr>, False)
           else (st1\<lparr>priorityIndex := 0, iterations := iterations st1 + 1\<rparr>, True))
        else (st1\<lparr>iterations := iterations st1 + 1\<rparr>, True))"

definition loopCond :: "rat \<Rightarrow> PriorityItem list \<Rightarrow> LoopState \<Rightarrow> bool" where
  "loopCond maxTotalHeight prios st \<longleftrightarrow>
     num_lt (currentHeight st) maxTotalHeight \<and> priorityIndex st < length prios
       \<and> iterations st < maxIterations"

lemma loopStep_progress:
  assumes "priorityIndex st < length prios" and "snd (loopStep rows m prios st)"
  shows "(iterations (fst (loopStep rows m prios st)) = iterations st
            \<and> priorityIndex (fst (loopStep rows m prios st)) = priorityIndex st + 1)
         \<or> iterations (fst (loopStep rows m prios st)) = iterations st + 1"
  using assms by (auto simp: loopStep_def Let_def split: if_splits)

function distributeLoop ::
  "RowTextData list \<Rightarrow> rat \<Rightarrow> PriorityItem list \<Rightarrow> LoopState \<Rightarrow> LoopState" where
  "distributeLoop rowTextData maxTotalHeight prios st =
     (if loopCond maxTotalHeight prios st then
        (if snd (loopStep rowTextData maxTotalHeight prios st)
         then distributeLoop rowTextData maxTotalHeight prios
                (fst (loopStep rowTextData maxTotalHeight prios st))
         else fst (loopStep rowTextData maxTotalHeight prios st))
      else st)"
  by pat_completeness auto

termination
proof (relation "measures [\<lambda>(rows, m, prios, st). maxIterations - iterations st,
                           \<lambda>(rows, m, prios, st). length prios - priorityIndex st]")
  show "wf (measures [\<lambda>(rows, m, prios, st). maxIterations - iterations st,
                      \<lambda>(rows :: RowTextData list, m :: rat, prios :: PriorityItem list, st).
                        length prios - priorityIndex st])"
    by simp
next
  fix rowTextData :: "RowTextData list" and maxTotalHeight :: rat
    and prios :: "PriorityItem list" and st :: LoopState
  assume c: "loopCond maxTotalHeight prios st"
    and s: "snd (loopStep rowTextData maxTotalHeight prios st)"
  from c have p: "priorityIndex st < length prios" and i: "iterations st < maxIterations"
    by (simp_all add: loopCond_def)
  from loopStep_progress [OF p s] p i
  show "((rowTextData, maxTotalHeight, prios, fst (loopStep rowTextData maxTotalHeight prios st)),
         (rowTextData, maxTotalHeight, prios, st))
        \<in> measures [\<lambda>(rows, m, prios, st). maxIterations - iterations st,
                     \<lambda>(rows, m, prios, st). length prios - priorityIndex st]"
    by auto
qed

declare distributeLoop.simps [simp del]

subsection \<open>\<open>calculateOptimalLineDistribution\<close>\<close>

text \<open>The state in which the source leaves its \<open>while\<close> loop (second phase).\<close>

definition phase2 :: "RowTextData list \<Rightarrow> rat \<Rightarrow> LoopState" where
  "phase2 rowTextData maxTotalHeight =
     distributeLoop rowTextData maxTotalHeight (rowPriorities rowTextData)
       \<lparr>currentAllocation = map minLines rowTextData,
        currentHeight = getCurrentHeight rowTextData (map minLines rowTextData),
        priorityIndex = 0,
        iterations = 0\<rparr>"

definition calculateOptimalLineDistribution :: "RowTextData list \<Rightarrow> rat \<Rightarrow> int list" where
  "calculateOptimalLineDistribution rowTextData maxTotalHeight =
     (if num_le (getCurrentHeight rowTextData (idealAllocation rowTextData)) maxTotalHeight
      then idealAllocation rowTextData
      else currentAllocation (phase2 rowTextData maxTotalHeight))"

section \<open>The line allocator in binary64 arithmetic\<close>

text \<open>
  The same function with the heights computed as the source computes them: every
  \<open>+\<close>, \<open>*\<close> and \<open>/\<close> of \<open>getCurrentHeight\<close> rounds to a double, and the comparisons
  with the budget are comparisons of doubles. The ideal allocation, the priority order
  and the test for needy rows involve line counts only and are the definitions above.
  Line counts are integers below \<open>2^53\<close>, which are doubles.
\<close>

record LoopState64 =
  currentAllocation64 :: "int list"
  currentHeight64 :: float64
  priorityIndex64 :: nat
  iterations64 :: nat

text \<open>
  \<open>cells.reduce((s, c) => s + c.lineHeight, 0) / cells.length\<close>; with no cells this
  is \<open>0 / 0\<close>, which \<open>div64\<close> makes \<open>NaN\<close>.
\<close>

definition rowAvgLineHeight64 :: "RowTextData \<Rightarrow> float64" where
  "rowAvgLineHeight64 row =
     div64 (foldl (\<lambda>s c. add64 s (Fin (lineHeight c))) (Fin 0) (cells row))
           (Fin (of_nat (length (cells row))))"

definition rowAvgPadding64 :: "RowTextData \<Rightarrow> float64" where
  "rowAvgPadding64 row =
     div64 (foldl (\<lambda>s c. add64 s (Fin (cellPadding c))) (Fin 0) (cells row))
           (Fin (of_nat (length (cells row))))"

text \<open>\<open>sum + (lines * rowAvgLineHeight) + rowAvgPadding\<close>, from the left, starting at \<open>0\<close>.\<close>

definition getCurrentHeight64 :: "RowTextData list \<Rightarrow> int list \<Rightarrow> float64" where
  "getCurrentHeight64 rowTextData allocation =
     foldl (\<lambda>sum (lines, row).
              add64 (add64 sum (mul64 (Fin (of_int lines)) (rowAvgLineHeight64 row)))
                    (rowAvgPadding64 row))
           (Fin 0) (zip allocation rowTextData)"

definition loopStep64 ::
  "RowTextData list \<Rightarrow> rat \<Rightarrow> PriorityItem list \<Rightarrow> LoopState64 \<Rightarrow> LoopState64 \<times> bool" where
  "loopStep64 rowTextData maxTotalHeight prios st =
     (let rowIndex = index (prios ! priorityIndex64 st);
          row = rowTextData ! rowIndex
      in
      if currentAllocation64 st ! rowIndex \<ge> maxNaturalLines row then
        (st\<lparr>priorityIndex64 := priorityIndex64 st + 1\<rparr>, True)
      else
        let testAllocation = (currentAllocation64 st)[rowIndex := currentAllocation64 st ! rowIndex + 1];
            testHeight = getCurrentHeight64 rowTextData testAllocation;
            st1 = (if le64 testHeight (Fin maxTotalHeight) then
                     (if testAllocation ! rowIndex \<ge> maxNaturalLines row
                      then st\<lparr>currentAllocation64 := testAllocation, currentHeight64 := testHeight,
                              priorityIndex64 := priorityIndex64 st + 1\<rparr>
                      else st\<lparr>currentAllocation64 := testAllocation, currentHeight64 := testHeight\<rparr>)
                   else st\<lparr>priorityIndex64 := priorityIndex64 st + 1\<rparr>)
        in
        if priorityIndex64 st1 \<ge> length prios then
          (if \<not> hasNeedyRows rowTextData prios (currentAllocation64 st1)
           then (st1\<lparr>priorityIndex64 := 0\<rparr>, False)
           else (st1\<lparr>priorityIndex64 := 0, iterations64 := iterations64 st1 + 1\<rparr>, True))
        else (st1\<lparr>iterations64 := iterations64 st1 + 1\<rparr>, True))"

definition loopCond64 :: "rat \<Rightarrow> PriorityItem list \<Rightarrow> LoopState64 \<Rightarrow> bool" where
  "loopCond64 maxTotalHeight prios st \<longleftrightarrow>
     lt64 (currentHeight64 st) (Fin maxTotalHeight) \<and> priorityIndex64 st < length prios
       \<and> iterations64 st < maxIterations"

lemma loopStep64_progress:
  assumes "priorityIndex64 st < length prios" and "snd (loopStep64 rows m prios st)"
  shows "(iterations64 (fst (loopStep64 rows m prios st)) = iterations64 st
            \<and> priorityIndex64 (fst (loopStep64 rows m prios st)) = priorityIndex64 st + 1)
         \<or> iterations64 (fst (loopStep64 rows m prios st)) = iterations64 st + 1"
  using assms by (auto simp: loopStep64_def Let_def split: if_splits)

function distributeLoop64 ::
  "RowTextData list \<Rightarrow> rat \<Rightarrow> PriorityItem list \<Rightarrow> LoopState64 \<Rightarrow> LoopState64" where
  "distributeLoop64 rowTextData maxTotalHeight prios st =
     (if loopCond64 maxTotalHeight prios st then
        (if snd (loopStep64 rowTextData maxTotalHeight prios st)
         then distributeLoop64 rowTextData maxTotalHeight prios
                (fst (loopStep64 rowTextData maxTotalHeight prios st))
         else fst (loopStep64 rowTextData maxTotalHeight prios st))
      else st)"
  by pat_completeness auto

termination
proof (relation "measures [\<lambda>(rows, m, prios, st). maxIterations - iterations64 st,
                           \<lambda>(rows, m, prios, st). length prios - priorityIndex64 st]")
  show "wf (measures [\<lambda>(rows, m, prios, st). maxIterations - iterations64 st,
                      \<lambda>(rows :: RowTextData list, m :: rat, prios :: PriorityItem list, st).
                        length prios - priorityIndex64 st])"
    by simp
next
  fix rowTextData :: "RowTextData list" and maxTotalHeight :: rat
    and prios :: "PriorityItem list" and st :: LoopState64
  assume c: "loopCond64 maxTotalHeight prios st"
    and s: "snd (loopStep64 rowTextData maxTotalHeight prios st)"
  from c have p: "priorityIndex64 st < length prios" and i: "iterations64 st < maxIterations"
    by (simp_all add: loopCond64_def)
  from loopStep64_progress [OF p s] p i
  show "((rowTextData, maxTotalHeight, prios, fst (loopStep64 rowTextData maxTotalHeight prios st)),
         (rowTextData, maxTotalHeight, prios, st))
        \<in> measures [\<lambda>(rows, m, prios, st). maxIterations - iterations64 st,
                     \<lambda>(rows, m, prios, st). length prios - priorityIndex64 st]"
    by auto
qed

declare distributeLoop64.simps [simp del]

definition phase2_64 :: "RowTextData list \<Rightarrow> rat \<Rightarrow> LoopState64" where
  "phase2_64 rowTextData maxTotalHeight =
     distributeLoop64 rowTextData maxTotalHeight (rowPriorities rowTextData)
       \<lparr>currentAllocation64 = map minLines rowTextData,
        currentHeight64 = getCurrentHeight64 rowTextData (map minLines rowTextData),
        priorityIndex64 = 0,
        iterations64 = 0\<rparr>"

definition calculateOptimalLineDistribution64 :: "RowTextData list \<Rightarrow> rat \<Rightarrow> int list" where
  "calculateOptimalLineDistribution64 rowTextData maxTotalHeight =
     (if le64 (getCurrentHeight64 rowTextData (idealAllocation rowTextData)) (Fin maxTotalHeight)
      then idealAllocation rowTextData
      else currentAllocation64 (phase2_64 rowTextData maxTotalHeight))"

section \<open>The per-cell clamp\<close>




section \<open>The specification's height function\<close>

text \<open>
  The specification's \<open>rowHeight(lines, i) = lines \<times> avgLineUnitHeight(i) + avgFixedOverhead(i)\<close>,
  with the averages as arithmetic means over the row's cells, and the total
  \<open>\<Sigma> rowHeight(allocation[i], i)\<close> over the rows.
\<close>

definition avgLineUnitHeight :: "RowTextData \<Rightarrow> rat" where
  "avgLineUnitHeight row = sum_list (map lineHeight (cells row)) / of_nat (length (cells row))"

definition avgFixedOverhead :: "RowTextData \<Rightarrow> rat" where
  "avgFixedOverhead row = sum_list (map cellPadding (cells row)) / of_nat (length (cells row))"

definition rowHeight :: "int \<Rightarrow> RowTextData \<Rightarrow> rat" where
  "rowHeight lines row = of_int lines * avgLineUnitHeight row + avgFixedOverhead row"

definition totalHeight :: "RowTextData list \<Rightarrow> int list \<Rightarrow> rat" where
  "totalHeight rows allocation =
     sum_list (map (\<lambda>i. rowHeight (allocation ! i) (rows ! i)) [0..<length rows])"

section \<open>Auxiliary definitions for the proofs\<close>


text \<open>
  The invariant of the distribution loop on the allocation: one entry per row, each
  between the row's minimum and the larger of its natural maximum and its minimum.
\<close>

definition allocInv :: "RowTextData list \<Rightarrow> int list \<Rightarrow> bool" where
  "allocInv rows allocation \<longleftrightarrow>
     length allocation = length rows \<and>
     (\<forall>i<length rows. minLines (rows ! i) \<le> allocation ! i \<and>
        allocation ! i \<le> max (maxNaturalLines (rows ! i)) (minLines (rows ! i)))"

text \<open>
  For the binary64 allocator: whether an allocation fits a budget by the allocator's own
  test, the allocation after one more line for a row, and the condition under which two
  budgets lead to comparable runs of the loop. Two budgets \<open>b1\<close> and \<open>b2\<close> can only
  part ways at a tentative grant that fits \<open>b2\<close> and not \<open>b1\<close>; \<open>sameStop\<close> says that
  wherever this happens no row's grant fits \<open>b1\<close>, so the run at \<open>b1\<close> has ended
  there: it holds for a single row, and for rows on which the fit of one more line does
  not depend on the row that receives it.
\<close>

definition fits64 :: "RowTextData list \<Rightarrow> rat \<Rightarrow> int list \<Rightarrow> bool" where
  "fits64 rows budget allocation = le64 (getCurrentHeight64 rows allocation) (Fin budget)"

definition grantLine :: "int list \<Rightarrow> nat \<Rightarrow> int list" where
  "grantLine allocation k = allocation[k := allocation ! k + 1]"


text \<open>
  The quotient under \<open>Math.ceil\<close> in line 88, \<open>(160 - avgPadding) / avgLineHeight\<close>, in
  binary64 arithmetic, with the two averages as the source's \<open>reduce\<close> sums divided by
  the number of cells.
\<close>

definition minQuotient64 :: "RowTextData \<Rightarrow> float64" where
  "minQuotient64 row = div64 (sub64 (Fin 160) (rowAvgPadding64 row)) (rowAvgLineHeight64 row)"

section \<open>Example inputs\<close>

text \<open>
  One row of two cells with 3 and 5 natural lines, line height 20 and padding 16:
  the minimum \<open>\<lceil>(160 - 16) / 20\<rceil> = 8\<close> lies above the natural maximum 5.
\<close>

definition scenarioACells :: "CellTextData list" where
  "scenarioACells =
     [\<lparr>naturalLines = 3, lineHeight = 20, cellPadding = 16\<rparr>,
      \<lparr>naturalLines = 5, lineHeight = 20, cellPadding = 16\<rparr>]"

definition scenarioA :: "RowTextData list" where
  "scenarioA = [\<lparr>cells = scenarioACells, maxNaturalLines = 5, minLines = 8\<rparr>]"

text \<open>
  Two rows whose ideal heights (1000 and 180) exceed the budget 740 together. A line
  of the first row costs 300, a line of the second 20; the first row needs two more
  lines than its minimum and comes first in the priority order.
\<close>

definition tightRows :: "RowTextData list" where
  "tightRows =
     [\<lparr>cells = [\<lparr>naturalLines = 3, lineHeight = 300, cellPadding = 100\<rparr>,
                \<lparr>naturalLines = 2, lineHeight = 300, cellPadding = 100\<rparr>],
       maxNaturalLines = 3, minLines = 1\<rparr>,
      \<lparr>cells = [\<lparr>naturalLines = 2, lineHeight = 20, cellPadding = 140\<rparr>,
                \<lparr>naturalLines = 1, lineHeight = 20, cellPadding = 140\<rparr>],
       maxNaturalLines = 2, minLines = 1\<rparr>]"

text \<open>
  The doubles nearest to the decimal CSS lengths 25.6, 15.6, 19.2 and 6.4, as the
  measurement reads them.
\<close>

definition px25_6 :: rat where
  "px25_6 = 3602879701896397 / 2 ^ 47"

definition px15_6 :: rat where
  "px15_6 = 8782019273372467 / 2 ^ 49"

definition px19_2 :: rat where
  "px19_2 = 5404319552844595 / 2 ^ 48"

definition px6_4 :: rat where
  "px6_4 = 3602879701896397 / 2 ^ 49"

text \<open>
  One row of two cells with line height 25.6 and padding 100, of 25 and 20 natural
  lines; its minimum is \<open>\<lceil>60 / 25.6\<rceil> = 3\<close>.
\<close>

definition edgeRow :: "RowTextData list" where
  "edgeRow =
     [\<lparr>cells = [\<lparr>naturalLines = 25, lineHeight = px25_6, cellPadding = 100\<rparr>,
                \<lparr>naturalLines = 20, lineHeight = px25_6, cellPadding = 100\<rparr>],
       maxNaturalLines = 25, minLines = 3\<rparr>]"

text \<open>
  Four rows of line height 15.6 and padding 68, with natural maxima 8, 8, 8 and 6 and
  minimum \<open>\<lceil>92 / 15.6\<rceil> = 6\<close>.
\<close>

definition fourRows :: "RowTextData list" where
  "fourRows =
     [\<lparr>cells = [\<lparr>naturalLines = 8, lineHeight = px15_6, cellPadding = 68\<rparr>,
                \<lparr>naturalLines = 7, lineHeight = px15_6, cellPadding = 68\<rparr>],
       maxNaturalLines = 8, minLines = 6\<rparr>,
      \<lparr>cells = [\<lparr>naturalLines = 8, lineHeight = px15_6, cellPadding = 68\<rparr>,
                \<lparr>naturalLines = 7, lineHeight = px15_6, cellPadding = 68\<rparr>],
       maxNaturalLines = 8, minLines = 6\<rparr>,
      \<lparr>cells = [\<lparr>naturalLines = 8, lineHeight = px15_6, cellPadding = 68\<rparr>,
                \<lparr>naturalLines = 7, lineHeight = px15_6, cellPadding = 68\<rparr>],
       maxNaturalLines = 8, minLines = 6\<rparr>,
      \<lparr>cells = [\<lparr>naturalLines = 6, lineHeight = px15_6, cellPadding = 68\<rparr>,
                \<lparr>naturalLines = 5, lineHeight = px15_6, cellPadding = 68\<rparr>],
       maxNaturalLines = 6, minLines = 6\<rparr>]"

text \<open>Two cells of line height 19.2 and padding 6.4.\<close>

definition shortCells :: "CellTextData list" where
  "shortCells =
     [\<lparr>naturalLines = 4, lineHeight = px19_2, cellPadding = px6_4\<rparr>,
      \<lparr>naturalLines = 3, lineHeight = px19_2, cellPadding = px6_4\<rparr>]"

definition shortRow :: RowTextData where
  "shortRow = \<lparr>cells = shortCells, maxNaturalLines = 4, minLines = 8\<rparr>"

text \<open>
  One row of a single cell (the last row of a grid with an odd number of cells) with
  line height 100, padding 40 and 6 natural lines; its minimum is \<open>\<lceil>120 / 100\<rceil> = 2\<close>.
\<close>

definition oneRow :: "RowTextData list" where
  "oneRow =
     [\<lparr>cells = [\<lparr>naturalLines = 6, lineHeight = 100, cellPadding = 40\<rparr>],
       maxNaturalLines = 6, minLines = 2\<rparr>]"

section \<open>The computed height is the specification's total\<close>











section \<open>Invariants of the distribution loop\<close>

text \<open>
  A pass through the loop body leaves the allocation alone or grants one line to a
  row below its natural maximum, and then only if the new height fits the budget.
\<close>

lemma loopStep_alloc:
  "currentAllocation (fst (loopStep rows m prios s)) = currentAllocation s \<or>
   (\<exists>k. currentAllocation s ! k < maxNaturalLines (rows ! k) \<and>
        currentAllocation (fst (loopStep rows m prios s))
          = (currentAllocation s)[k := currentAllocation s ! k + 1] \<and>
        num_le (getCurrentHeight rows ((currentAllocation s)[k := currentAllocation s ! k + 1])) m)"
  by (auto simp: loopStep_def Let_def split: if_splits)

text \<open>
  The wrap-around in the two branches of the body. After a tentative increment the
  pointer is back inside the priority order, and the body breaks only when no row
  of the order is below its natural maximum. The branch that skips a row already at
  its maximum only advances the pointer, also past the end.
\<close>

lemma loopStep_attempt_wraps:
  assumes "priorityIndex st < length prios"
    and "currentAllocation st ! index (prios ! priorityIndex st)
           < maxNaturalLines (rows ! index (prios ! priorityIndex st))"
  shows "priorityIndex (fst (loopStep rows m prios st)) < length prios"
    and "snd (loopStep rows m prios st)
           \<or> \<not> hasNeedyRows rows prios (currentAllocation (fst (loopStep rows m prios st)))"
  using assms by (auto simp: loopStep_def Let_def split: if_splits)

lemma loopStep_skip_no_wrap:
  assumes "maxNaturalLines (rows ! index (prios ! priorityIndex st))
             \<le> currentAllocation st ! index (prios ! priorityIndex st)"
  shows "loopStep rows m prios st = (st\<lparr>priorityIndex := priorityIndex st + 1\<rparr>, True)"
  using assms by (simp add: loopStep_def Let_def)

text \<open>A property kept by every pass of the body holds of the state the loop ends in.\<close>

lemma distributeLoop_invariant:
  "P st \<Longrightarrow> (\<forall>s. P s \<and> loopCond m prios s \<longrightarrow> P (fst (loopStep rows m prios s))) \<Longrightarrow>
     P (distributeLoop rows m prios st)"
proof (induction rows m prios st rule: distributeLoop.induct)
  case (1 rows m prios st)
  show ?case
  proof (cases "loopCond m prios st")
    case False
    then show ?thesis using "1.prems"(1) by (simp add: distributeLoop.simps)
  next
    case True
    with "1.prems" have step: "P (fst (loopStep rows m prios st))" by blast
    show ?thesis
    proof (cases "snd (loopStep rows m prios st)")
      case False
      with True step show ?thesis by (simp add: distributeLoop.simps)
    next
      case snd: True
      from "1.IH" [OF True snd step "1.prems"(2)] True snd
      show ?thesis by (subst distributeLoop.simps) simp
    qed
  qed
qed

lemma allocInv_min: "allocInv rows (map minLines rows)"
  by (simp add: allocInv_def)

lemma allocInv_ideal: "allocInv rows (idealAllocation rows)"
  by (simp add: allocInv_def idealAllocation_def)

lemma allocInv_step:
  assumes "allocInv rows (currentAllocation s)"
  shows "allocInv rows (currentAllocation (fst (loopStep rows m prios s)))"
proof -
  from loopStep_alloc [of rows m prios s] show ?thesis
  proof
    assume "currentAllocation (fst (loopStep rows m prios s)) = currentAllocation s"
    with assms show ?thesis by simp
  next
    assume "\<exists>k. currentAllocation s ! k < maxNaturalLines (rows ! k) \<and>
        currentAllocation (fst (loopStep rows m prios s))
          = (currentAllocation s)[k := currentAllocation s ! k + 1] \<and>
        num_le (getCurrentHeight rows ((currentAllocation s)[k := currentAllocation s ! k + 1])) m"
    then obtain k where lt: "currentAllocation s ! k < maxNaturalLines (rows ! k)"
      and eq: "currentAllocation (fst (loopStep rows m prios s))
          = (currentAllocation s)[k := currentAllocation s ! k + 1]"
      by blast
    show ?thesis
      unfolding allocInv_def eq
    proof (intro conjI allI impI)
      show "length ((currentAllocation s)[k := currentAllocation s ! k + 1]) = length rows"
        using assms by (simp add: allocInv_def)
    next
      fix i assume i: "i < length rows"
      with assms have b: "minLines (rows ! i) \<le> currentAllocation s ! i"
        "currentAllocation s ! i \<le> max (maxNaturalLines (rows ! i)) (minLines (rows ! i))"
        and len: "length (currentAllocation s) = length rows"
        by (simp_all add: allocInv_def)
      show "minLines (rows ! i) \<le> (currentAllocation s)[k := currentAllocation s ! k + 1] ! i"
        using b i len by (cases "i = k") simp_all
      show "(currentAllocation s)[k := currentAllocation s ! k + 1] ! i
              \<le> max (maxNaturalLines (rows ! i)) (minLines (rows ! i))"
        using b i len lt by (cases "i = k") simp_all
    qed
  qed
qed

lemma phase2_allocInv: "allocInv rows (currentAllocation (phase2 rows m))"
  unfolding phase2_def
  by (rule distributeLoop_invariant [where P = "\<lambda>s. allocInv rows (currentAllocation s)"])
     (simp_all add: allocInv_min allocInv_step)

lemma result_allocInv: "allocInv rows (calculateOptimalLineDistribution rows m)"
  by (simp add: calculateOptimalLineDistribution_def allocInv_ideal phase2_allocInv)


section \<open>Sums and pushes over lists of cells\<close>








section \<open>Evaluating binary64 operations on numerals\<close>

lemma ilog2_numeral:
  "ilog2 (numeral k) = (if numeral k < (2::int) then 0 else 1 + ilog2 (numeral k div 2))"
  by (rule ilog2.simps)

lemma ilog2_small: "ilog2 0 = 0" "ilog2 1 = 0"
  by (simp_all add: ilog2.simps)

lemma floor_rat_numeral:
  "\<lfloor>numeral a / numeral b :: rat\<rfloor> = numeral a div numeral b"
  "\<lfloor>- (numeral a / numeral b) :: rat\<rfloor> = - numeral a div numeral b"
  "\<lfloor>1 / numeral b :: rat\<rfloor> = 1 div numeral b"
  "\<lfloor>- (1 / numeral b) :: rat\<rfloor> = - 1 div numeral b"
     apply (metis floor_divide_of_int_eq of_int_numeral)
    apply (metis divide_minus_left floor_divide_of_int_eq of_int_neg_numeral of_int_numeral)
   apply (metis floor_divide_of_int_eq of_int_numeral of_int_1)
  apply (metis divide_minus_left floor_divide_of_int_eq of_int_minus of_int_numeral of_int_1)
  done

lemma ceiling_rat_numeral:
  "\<lceil>numeral a / numeral b :: rat\<rceil> = - (- numeral a div numeral b)"
  "\<lceil>- (numeral a / numeral b) :: rat\<rceil> = - (numeral a div numeral b)"
  "\<lceil>1 / numeral b :: rat\<rceil> = - (- 1 div numeral b)"
  by (simp_all add: ceiling_def floor_rat_numeral)

lemmas f64_eval = round64_def expo_def pow2_def roundHalfEven_def Let_def add64_def mul64_def
  div64_def sub64_def neg64_def isNaN_def isInf_def isZero_def isNeg_def finVal_def zero64_def
  inf64_def le64_def lt64_def maxOneCeil_def ilog2_numeral ilog2_small floor_rat_numeral
  ceiling_rat_numeral

text \<open>The rounding on some familiar values: 0.1 + 0.2, a tie, and the decimal lengths.\<close>

lemma round64_examples:
  "add64 (round64 (1 / 10)) (round64 (2 / 10)) = Fin (1351079888211149 / 2 ^ 52)"
  "round64 (2 ^ 53 + 1) = Fin (2 ^ 53)"
  "round64 (2 ^ 53 + 3) = Fin (2 ^ 53 + 4)"
  "round64 (128 / 5) = Fin px25_6"
  "round64 (78 / 5) = Fin px15_6"
  "round64 (96 / 5) = Fin px19_2"
  "round64 (32 / 5) = Fin px6_4"
  by (simp_all add: f64_eval px25_6_def px15_6_def px19_2_def px6_4_def)

section \<open>The binary64 allocator: invariants of the loop\<close>

lemma loopStep64_alloc:
  "currentAllocation64 (fst (loopStep64 rows m prios s)) = currentAllocation64 s \<or>
   (\<exists>k. k = index (prios ! priorityIndex64 s) \<and>
        currentAllocation64 s ! k < maxNaturalLines (rows ! k) \<and>
        currentAllocation64 (fst (loopStep64 rows m prios s)) = grantLine (currentAllocation64 s) k \<and>
        fits64 rows m (grantLine (currentAllocation64 s) k))"
  by (auto simp: loopStep64_def Let_def fits64_def grantLine_def split: if_splits)

lemma distributeLoop64_invariant:
  "P st \<Longrightarrow> (\<forall>s. P s \<and> loopCond64 m prios s \<longrightarrow> P (fst (loopStep64 rows m prios s))) \<Longrightarrow>
     P (distributeLoop64 rows m prios st)"
proof (induction rows m prios st rule: distributeLoop64.induct)
  case (1 rows m prios st)
  show ?case
  proof (cases "loopCond64 m prios st")
    case False
    then show ?thesis using "1.prems"(1) by (simp add: distributeLoop64.simps)
  next
    case True
    with "1.prems" have step: "P (fst (loopStep64 rows m prios st))" by blast
    show ?thesis
    proof (cases "snd (loopStep64 rows m prios st)")
      case False
      with True step show ?thesis by (simp add: distributeLoop64.simps)
    next
      case snd: True
      from "1.IH" [OF True snd step "1.prems"(2)] True snd
      show ?thesis by (subst distributeLoop64.simps) simp
    qed
  qed
qed

lemma allocInv_grantLine:
  assumes "allocInv rows a" and "a ! k < maxNaturalLines (rows ! k)"
  shows "allocInv rows (grantLine a k)"
  unfolding allocInv_def grantLine_def
proof (intro conjI allI impI)
  show "length (a[k := a ! k + 1]) = length rows"
    using assms(1) by (simp add: allocInv_def)
next
  fix i assume i: "i < length rows"
  with assms(1) have b: "minLines (rows ! i) \<le> a ! i"
    "a ! i \<le> max (maxNaturalLines (rows ! i)) (minLines (rows ! i))"
    and len: "length a = length rows"
    by (simp_all add: allocInv_def)
  show "minLines (rows ! i) \<le> a[k := a ! k + 1] ! i"
    using b i len by (cases "i = k") simp_all
  show "a[k := a ! k + 1] ! i \<le> max (maxNaturalLines (rows ! i)) (minLines (rows ! i))"
    using b i len assms(2) by (cases "i = k") simp_all
qed

lemma allocInv_step64:
  assumes "allocInv rows (currentAllocation64 s)"
  shows "allocInv rows (currentAllocation64 (fst (loopStep64 rows m prios s)))"
  using loopStep64_alloc [of rows m prios s] assms by (auto simp: allocInv_grantLine)

lemma phase2_64_allocInv: "allocInv rows (currentAllocation64 (phase2_64 rows m))"
  unfolding phase2_64_def
  by (rule distributeLoop64_invariant [where P = "\<lambda>s. allocInv rows (currentAllocation64 s)"])
     (simp_all add: allocInv_min allocInv_step64)

lemma result64_allocInv: "allocInv rows (calculateOptimalLineDistribution64 rows m)"
  by (simp add: calculateOptimalLineDistribution64_def allocInv_ideal phase2_64_allocInv)


lemma ceiling_max_invariant64:
  "i < length rows \<Longrightarrow>
     calculateOptimalLineDistribution64 rows budget ! i
       \<le> max (maxNaturalLines (rows ! i)) (minLines (rows ! i))"
  using result64_allocInv [of rows budget] by (simp add: allocInv_def)

text \<open>An allocation reached by the loop is the starting one or passed the fit test.\<close>

lemma fits_step64:
  assumes "currentAllocation64 s = a0 \<or> fits64 rows m (currentAllocation64 s)"
  shows "currentAllocation64 (fst (loopStep64 rows m prios s)) = a0
         \<or> fits64 rows m (currentAllocation64 (fst (loopStep64 rows m prios s)))"
  using loopStep64_alloc [of rows m prios s] assms by auto

lemma phase2_64_fits:
  "currentAllocation64 (phase2_64 rows m) = map minLines rows
   \<or> fits64 rows m (currentAllocation64 (phase2_64 rows m))"
  unfolding phase2_64_def
  by (rule distributeLoop64_invariant
        [where P = "\<lambda>s. currentAllocation64 s = map minLines rows
                       \<or> fits64 rows m (currentAllocation64 s)"])
     (simp_all add: fits_step64)



section \<open>The binary64 allocator under two budgets\<close>







section \<open>The allocator on the example inputs\<close>

lemma scenarioA_measured: "buildRowTextData scenarioACells = Some (scenarioA ! 0)"
  by (simp add: buildRowTextData_def scenarioACells_def scenarioA_def f64_eval)

lemma tightRows_measured: "map (\<lambda>row. buildRowTextData (cells row)) tightRows = map Some tightRows"
  by (simp add: buildRowTextData_def tightRows_def f64_eval)

lemma scenarioA_740: "calculateOptimalLineDistribution scenarioA 740 = [8]"
  by code_simp

lemma tight_740: "calculateOptimalLineDistribution tightRows 740 = [1, 2]"
  by code_simp

lemma tight_860: "calculateOptimalLineDistribution tightRows 860 = [2, 1]"
  by code_simp


section \<open>Properties of the allocation\<close>

text \<open>
  Claim C3 (floor invariant): for every list of rows and every budget, the returned
  allocation gives every row \<open>i\<close> at least \<open>minLineCount(i)\<close> lines.
\<close>

theorem floor_invariant:
  "i < length rows \<Longrightarrow> minLines (rows ! i) \<le> calculateOptimalLineDistribution rows budget ! i"
  using result_allocInv [of rows budget] by (simp add: allocInv_def)

theorem floor_invariant_witness:
  "1 < length tightRows
   \<and> minLines (tightRows ! 1) \<le> calculateOptimalLineDistribution tightRows 740 ! 1"
proof -
  have h: "1 < length tightRows" by (simp add: tightRows_def)
  from h floor_invariant [OF h, of 740] show ?thesis by simp
qed

text \<open>
  Claim C4 (ceiling invariant, as the specification states it): the returned
  allocation gives every row \<open>i\<close> at most \<open>maxNaturalLineCount(i)\<close> lines, whatever
  the relation of the row's minimum to its natural maximum. This fails for a row
  whose minimum exceeds its natural maximum: the one row of \<open>scenarioA\<close> has 5
  natural lines and is given its minimum, 8.
\<close>

theorem ceiling_invariant_counterexample:
  "\<not> calculateOptimalLineDistribution scenarioA 740 ! 0 \<le> maxNaturalLines (scenarioA ! 0)"
  by (simp add: scenarioA_740) (simp add: scenarioA_def)

text \<open>
  Claim C4, amended: every row whose minimum does not exceed its natural maximum is
  given at most \<open>maxNaturalLineCount(i)\<close> lines.
\<close>

theorem ceiling_invariant_amended:
  assumes "i < length rows" and "minLines (rows ! i) \<le> maxNaturalLines (rows ! i)"
  shows "calculateOptimalLineDistribution rows budget ! i \<le> maxNaturalLines (rows ! i)"
  using result_allocInv [of rows budget] assms by (auto simp: allocInv_def)

theorem ceiling_invariant_amended_witness:
  "0 < length tightRows \<and> minLines (tightRows ! 0) \<le> maxNaturalLines (tightRows ! 0)
   \<and> calculateOptimalLineDistribution tightRows 1180 ! 0 \<le> maxNaturalLines (tightRows ! 0)"
proof -
  have i: "0 < length tightRows" by (simp add: tightRows_def)
  have h: "minLines (tightRows ! 0) \<le> maxNaturalLines (tightRows ! 0)" by (simp add: tightRows_def)
  from i h ceiling_invariant_amended [OF i h, of 1180] show ?thesis by simp
qed



text \<open>
  Claim C7 (wrap-around): whenever the priority pointer passes the end of the
  priority order it wraps to the start if some row of the order is still below its
  natural maximum, so the loop never ends with the pointer past the end while such a
  row remains, the iteration cap and the exhausted budget apart. The source tests
  for the wrap only after a tentative increment; the branch that skips a row already
  at its maximum advances the pointer and goes straight back to the loop condition.
  On \<open>tightRows\<close> with budget 740 the loop ends with the pointer at the length of
  the priority order, the first row still below its natural maximum, the height
  below the budget and 3 of the 200 iterations used.
\<close>

theorem wrap_skipped_on_continue:
  "phase2 tightRows 740
     = \<lparr>currentAllocation = [1, 2], currentHeight = Some 580, priorityIndex = 2, iterations = 3\<rparr>
   \<and> length (rowPriorities tightRows) = 2
   \<and> hasNeedyRows tightRows (rowPriorities tightRows) (currentAllocation (phase2 tightRows 740))
   \<and> num_lt (currentHeight (phase2 tightRows 740)) 740
   \<and> iterations (phase2 tightRows 740) < maxIterations"
  by code_simp


text \<open>
  Claim C10 (ceiling at the larger of natural maximum and minimum): for every list of
  rows and every budget, every row \<open>i\<close> is given at most
  \<open>max(maxNaturalLineCount(i), minLineCount(i))\<close> lines; a row given more than its
  natural maximum is given exactly its minimum, since the second phase grants a line
  only to a row below its natural maximum.
\<close>

theorem ceiling_max_invariant:
  assumes "i < length rows"
  shows "calculateOptimalLineDistribution rows budget ! i
           \<le> max (maxNaturalLines (rows ! i)) (minLines (rows ! i))
         \<and> (maxNaturalLines (rows ! i) < calculateOptimalLineDistribution rows budget ! i
              \<longrightarrow> calculateOptimalLineDistribution rows budget ! i = minLines (rows ! i))"
  using result_allocInv [of rows budget] assms by (auto simp: allocInv_def)

theorem ceiling_max_invariant_witness:
  "0 < length scenarioA
   \<and> calculateOptimalLineDistribution scenarioA 740 ! 0
       \<le> max (maxNaturalLines (scenarioA ! 0)) (minLines (scenarioA ! 0))
   \<and> maxNaturalLines (scenarioA ! 0) < calculateOptimalLineDistribution scenarioA 740 ! 0
   \<and> calculateOptimalLineDistribution scenarioA 740 ! 0 = minLines (scenarioA ! 0)"
proof -
  have i: "0 < length scenarioA" by (simp add: scenarioA_def)
  have over: "maxNaturalLines (scenarioA ! 0) < calculateOptimalLineDistribution scenarioA 740 ! 0"
    by (simp add: scenarioA_740) (simp add: scenarioA_def)
  from ceiling_max_invariant [OF i, of 740] i over show ?thesis by simp
qed

section \<open>The binary64 allocator on the example inputs\<close>

text \<open>The running sum of \<open>getCurrentHeight64\<close> on lists of one, two and four rows.\<close>

lemma getCurrentHeight64_one:
  assumes "length rows = 1"
  shows "getCurrentHeight64 rows [a]
     = add64 (add64 (Fin 0)
          (mul64 (Fin (of_int a)) (rowAvgLineHeight64 (rows ! 0)))) (rowAvgPadding64 (rows ! 0))"
proof -
  from assms obtain r0 where "rows = [r0]"
    by (auto simp: length_Suc_conv)
  then show ?thesis by (simp add: getCurrentHeight64_def)
qed

lemma getCurrentHeight64_two:
  assumes "length rows = 2"
  shows "getCurrentHeight64 rows [a, b]
     = add64 (add64 (add64 (add64 (Fin 0)
          (mul64 (Fin (of_int a)) (rowAvgLineHeight64 (rows ! 0)))) (rowAvgPadding64 (rows ! 0)))
          (mul64 (Fin (of_int b)) (rowAvgLineHeight64 (rows ! 1)))) (rowAvgPadding64 (rows ! 1))"
proof -
  from assms obtain r0 r1 where "rows = [r0, r1]"
    by (auto simp: length_Suc_conv numeral_2_eq_2)
  then show ?thesis by (simp add: getCurrentHeight64_def)
qed

lemma getCurrentHeight64_four:
  assumes "length rows = 4"
  shows "getCurrentHeight64 rows [a, b, c, d]
     = add64 (add64 (add64 (add64 (add64 (add64 (add64 (add64 (Fin 0)
          (mul64 (Fin (of_int a)) (rowAvgLineHeight64 (rows ! 0)))) (rowAvgPadding64 (rows ! 0)))
          (mul64 (Fin (of_int b)) (rowAvgLineHeight64 (rows ! 1)))) (rowAvgPadding64 (rows ! 1)))
          (mul64 (Fin (of_int c)) (rowAvgLineHeight64 (rows ! 2)))) (rowAvgPadding64 (rows ! 2)))
          (mul64 (Fin (of_int d)) (rowAvgLineHeight64 (rows ! 3)))) (rowAvgPadding64 (rows ! 3))"
proof -
  have "length rows = Suc (Suc (Suc (Suc 0)))" using assms by simp
  then obtain r0 r1 r2 r3 where "rows = [r0, r1, r2, r3]"
    by (auto simp: length_Suc_conv)
  then show ?thesis by (simp add: getCurrentHeight64_def)
qed

lemmas loop64_eval = calculateOptimalLineDistribution64_def phase2_64_def distributeLoop64.simps
  loopCond64_def loopStep64_def hasNeedyRows_def maxIterations_def Let_def le64_def lt64_def
  isNaN_def finVal_def

subsection \<open>\<open>tightRows\<close>\<close>

lemma tightRows_length: "length tightRows = 2"
  by (simp add: tightRows_def)

lemma tightRows_avg64:
  "rowAvgLineHeight64 (tightRows ! 0) = Fin 300" "rowAvgPadding64 (tightRows ! 0) = Fin 100"
  "rowAvgLineHeight64 (tightRows ! 1) = Fin 20" "rowAvgPadding64 (tightRows ! 1) = Fin 140"
  by (simp_all add: tightRows_def rowAvgLineHeight64_def rowAvgPadding64_def f64_eval)

lemma tightRows_heights64:
  "getCurrentHeight64 tightRows [3, 2] = Fin 1180"
  "getCurrentHeight64 tightRows [1, 1] = Fin 560"
  "getCurrentHeight64 tightRows [2, 1] = Fin 860"
  "getCurrentHeight64 tightRows [1, 2] = Fin 580"
  "getCurrentHeight64 tightRows [2, 2] = Fin 880"
  by (simp_all only: getCurrentHeight64_two [OF tightRows_length] tightRows_avg64)
     (simp_all add: f64_eval)

lemma tightRows_shape:
  "maxNaturalLines (tightRows ! 0) = 3" "maxNaturalLines (tightRows ! Suc 0) = 2"
  "map minLines tightRows = [1, 1]" "idealAllocation tightRows = [3, 2]"
  by (simp_all add: tightRows_def idealAllocation_def)

lemma tightRows_prios:
  "rowPriorities tightRows
     = [\<lparr>index = 0, remainingNeed = 2, priority = 2\<rparr>, \<lparr>index = 1, remainingNeed = 1, priority = 1\<rparr>]"
  by code_simp

lemma tight64_740: "calculateOptimalLineDistribution64 tightRows 740 = [1, 2]"
  by (simp add: loop64_eval tightRows_shape tightRows_prios tightRows_heights64)


subsection \<open>\<open>edgeRow\<close>: an ideal height that rounds to the budget\<close>

lemma edgeRow_measured: "map (\<lambda>row. buildRowTextData (cells row)) edgeRow = map Some edgeRow"
  by (simp add: buildRowTextData_def edgeRow_def px25_6_def f64_eval)

lemma edgeRow_length: "length edgeRow = 1"
  by (simp add: edgeRow_def)

lemma edgeRow_avg64:
  "rowAvgLineHeight64 (edgeRow ! 0) = Fin (3602879701896397 / 2 ^ 47)"
  "rowAvgPadding64 (edgeRow ! 0) = Fin 100"
  by (simp_all add: edgeRow_def px25_6_def rowAvgLineHeight64_def rowAvgPadding64_def f64_eval)

lemma edgeRow_heights64:
  "getCurrentHeight64 edgeRow [25] = Fin 740"
  "getCurrentHeight64 edgeRow [3] = Fin (3110298492652749 / 2 ^ 44)"
  by (simp_all only: getCurrentHeight64_one [OF edgeRow_length] edgeRow_avg64)
     (simp_all add: f64_eval)

lemma edgeRow_shape:
  "map minLines edgeRow = [3]" "idealAllocation edgeRow = [25]"
  by (simp_all add: edgeRow_def idealAllocation_def)

lemma edge64_740: "calculateOptimalLineDistribution64 edgeRow 740 = [25]"
  by (simp add: calculateOptimalLineDistribution64_def edgeRow_shape edgeRow_heights64
      le64_def isNaN_def finVal_def)

lemma edgeRow_exact:
  "totalHeight edgeRow [3] \<le> 740" "740 < totalHeight edgeRow [25]"
  by (simp_all add: totalHeight_def rowHeight_def avgLineUnitHeight_def avgFixedOverhead_def
      edgeRow_def px25_6_def)

subsection \<open>\<open>fourRows\<close>: an ideal height that rounds above the budget\<close>

lemma fourRows_measured: "map (\<lambda>row. buildRowTextData (cells row)) fourRows = map Some fourRows"
  by (simp add: buildRowTextData_def fourRows_def px15_6_def f64_eval)

lemma fourRows_length: "length fourRows = 4"
  by (simp add: fourRows_def)

lemma fourRows_avg64:
  "rowAvgLineHeight64 (fourRows ! 0) = Fin (8782019273372467 / 2 ^ 49)"
  "rowAvgLineHeight64 (fourRows ! 1) = Fin (8782019273372467 / 2 ^ 49)"
  "rowAvgLineHeight64 (fourRows ! 2) = Fin (8782019273372467 / 2 ^ 49)"
  "rowAvgLineHeight64 (fourRows ! 3) = Fin (8782019273372467 / 2 ^ 49)"
  "rowAvgPadding64 (fourRows ! 0) = Fin 68" "rowAvgPadding64 (fourRows ! 1) = Fin 68"
  "rowAvgPadding64 (fourRows ! 2) = Fin 68" "rowAvgPadding64 (fourRows ! 3) = Fin 68"
  by (simp_all add: fourRows_def px15_6_def rowAvgLineHeight64_def rowAvgPadding64_def f64_eval)

lemma fourRows_heights64:
  "getCurrentHeight64 fourRows [8, 8, 8, 6] = Fin (6509108836433921 / 2 ^ 43)"
  "getCurrentHeight64 fourRows [6, 6, 6, 6] = Fin (5685794529555251 / 2 ^ 43)"
  "getCurrentHeight64 fourRows [7, 6, 6, 6] = Fin 662"
  "getCurrentHeight64 fourRows [8, 6, 6, 6] = Fin (5960232631848141 / 2 ^ 43)"
  "getCurrentHeight64 fourRows [8, 7, 6, 6] = Fin (3048725841497293 / 2 ^ 42)"
  "getCurrentHeight64 fourRows [8, 8, 6, 6] = Fin (6234670734141031 / 2 ^ 43)"
  "getCurrentHeight64 fourRows [8, 8, 7, 6] = Fin (6371889785287475 / 2 ^ 43)"
  by (simp_all only: getCurrentHeight64_four [OF fourRows_length] fourRows_avg64)
     (simp_all add: f64_eval)

lemma fourRows_shape:
  "maxNaturalLines (fourRows ! 0) = 8" "maxNaturalLines (fourRows ! Suc 0) = 8"
  "maxNaturalLines (fourRows ! 2) = 8" "maxNaturalLines (fourRows ! 3) = 6"
  "map minLines fourRows = [6, 6, 6, 6]" "idealAllocation fourRows = [8, 8, 8, 6]"
  by (simp_all add: fourRows_def idealAllocation_def)

lemma fourRows_prios:
  "rowPriorities fourRows
     = [\<lparr>index = 0, remainingNeed = 2, priority = 2\<rparr>, \<lparr>index = 1, remainingNeed = 2, priority = 2\<rparr>,
        \<lparr>index = 2, remainingNeed = 2, priority = 2\<rparr>]"
  by code_simp

lemma fourRows_exact:
  "totalHeight fourRows [8, 8, 8, 6] \<le> 740"
  by (simp add: totalHeight_def rowHeight_def avgLineUnitHeight_def avgFixedOverhead_def
      fourRows_def px15_6_def)

lemma four64_740: "calculateOptimalLineDistribution64 fourRows 740 = [8, 8, 7, 6]"
  by (simp add: loop64_eval fourRows_shape fourRows_prios fourRows_heights64)

subsection \<open>\<open>shortCells\<close>: a quotient that rounds down to an integer\<close>

lemma shortCells_measured: "buildRowTextData shortCells = Some shortRow"
  by (simp add: buildRowTextData_def shortRow_def shortCells_def px19_2_def px6_4_def f64_eval)

lemma shortRow_exact:
  "\<lceil>(160 - avgFixedOverhead shortRow) / avgLineUnitHeight shortRow\<rceil> = 9"
  by (simp add: avgFixedOverhead_def avgLineUnitHeight_def shortRow_def shortCells_def
      px19_2_def px6_4_def ceiling_rat_numeral)

lemma scenarioA_quotient64: "minQuotient64 (scenarioA ! 0) = Fin (8106479329266893 / 2 ^ 50)"
  by (simp add: minQuotient64_def rowAvgPadding64_def rowAvgLineHeight64_def scenarioA_def
      scenarioACells_def f64_eval)

subsection \<open>\<open>oneRow\<close>\<close>

lemma oneRow_measured: "map (\<lambda>row. buildRowTextData (cells row)) oneRow = map Some oneRow"
  by (simp add: buildRowTextData_def oneRow_def f64_eval)











section \<open>Properties that depend on the computed heights\<close>

text \<open>
  Claim C1 (budget invariant), with the sums of the specification taken exactly: if
  the sum over the rows of \<open>rowHeight(minLineCount(i), i)\<close> is at most the budget, so
  is the sum of \<open>rowHeight(allocation[i], i)\<close> for the returned allocation. This fails
  by rounding: for \<open>edgeRow\<close> the allocator computes the ideal height \<open>25 * 25.6 + 100\<close>
  as exactly 740 and returns the ideal allocation, whose exact height over the same
  doubles is above 740.
\<close>

theorem budget_invariant_counterexample:
  "totalHeight edgeRow (map minLines edgeRow) \<le> 740
   \<and> \<not> totalHeight edgeRow (calculateOptimalLineDistribution64 edgeRow 740) \<le> 740"
  using edgeRow_exact by (simp add: edge64_740 edgeRow_shape)

text \<open>
  Claim C1, amended: if the height of the all-minimum allocation, as the allocator
  computes it (\<open>getCurrentHeight\<close> in binary64 arithmetic, the rows summed in order),
  is at most the budget, then the height of the returned allocation, computed the same
  way, is at most the budget.
\<close>

theorem budget_invariant_amended:
  assumes "fits64 rows budget (map minLines rows)"
  shows "fits64 rows budget (calculateOptimalLineDistribution64 rows budget)"
proof (cases "fits64 rows budget (idealAllocation rows)")
  case True
  then show ?thesis
    by (simp add: calculateOptimalLineDistribution64_def fits64_def)
next
  case False
  then have "calculateOptimalLineDistribution64 rows budget
               = currentAllocation64 (phase2_64 rows budget)"
    by (simp add: calculateOptimalLineDistribution64_def fits64_def)
  with phase2_64_fits [of rows budget] assms show ?thesis by auto
qed

theorem budget_invariant_amended_witness:
  "fits64 tightRows 740 (map minLines tightRows)
   \<and> fits64 tightRows 740 (calculateOptimalLineDistribution64 tightRows 740)
   \<and> calculateOptimalLineDistribution64 tightRows 740 = [1, 2]"
proof -
  have h: "fits64 tightRows 740 (map minLines tightRows)"
    by (simp add: fits64_def tightRows_shape tightRows_heights64 le64_def isNaN_def finVal_def)
  from h budget_invariant_amended [OF h] show ?thesis by (simp add: tight64_740)
qed

text \<open>
  Claim C2 (ideal shortcut), with the sum of the specification taken exactly: if the
  ideal allocation has a total height of at most the budget, the allocator returns it.
  This fails by rounding: for \<open>fourRows\<close> the exact height of the ideal allocation
  \<open>[8, 8, 8, 6]\<close> is below 740, the allocator computes it as \<open>740.0000000000001\<close>,
  goes on to the second phase and returns \<open>[8, 8, 7, 6]\<close>.
\<close>

theorem ideal_shortcut_counterexample:
  "totalHeight fourRows (map (\<lambda>r. max (maxNaturalLines r) (minLines r)) fourRows) \<le> 740
   \<and> calculateOptimalLineDistribution64 fourRows 740
       \<noteq> map (\<lambda>r. max (maxNaturalLines r) (minLines r)) fourRows
   \<and> calculateOptimalLineDistribution64 fourRows 740 = [8, 8, 7, 6]"
  using fourRows_exact fourRows_shape(6)
  by (simp add: four64_740 idealAllocation_def)

text \<open>
  Claim C2, amended: if the height of the ideal allocation, as the allocator computes
  it (\<open>getCurrentHeight\<close> in binary64 arithmetic, the rows summed in order), is at most
  the budget, the allocator returns exactly the ideal allocation.
\<close>

theorem ideal_shortcut_amended:
  assumes "fits64 rows budget (map (\<lambda>r. max (maxNaturalLines r) (minLines r)) rows)"
  shows "calculateOptimalLineDistribution64 rows budget
           = map (\<lambda>r. max (maxNaturalLines r) (minLines r)) rows"
  using assms by (simp add: calculateOptimalLineDistribution64_def fits64_def idealAllocation_def)

theorem ideal_shortcut_amended_witness:
  "fits64 edgeRow 740 (map (\<lambda>r. max (maxNaturalLines r) (minLines r)) edgeRow)
   \<and> calculateOptimalLineDistribution64 edgeRow 740 = [25]
   \<and> map minLines edgeRow = [3]"
proof -
  have h: "fits64 edgeRow 740 (map (\<lambda>r. max (maxNaturalLines r) (minLines r)) edgeRow)"
    using edgeRow_shape(2) edgeRow_heights64(1)
    by (simp add: fits64_def idealAllocation_def le64_def isNaN_def finVal_def)
  from h ideal_shortcut_amended [OF h] edgeRow_shape show ?thesis
    by (simp add: idealAllocation_def)
qed




text \<open>
  Claim C8 (minimum line count), with the quotient of the specification taken
  exactly: the computed minimum is
  \<open>max(1, \<lceil>(160 - avgFixedOverhead) / avgLineUnitHeight\<rceil>)\<close>. This fails by rounding:
  for two cells of line height 19.2 and padding 6.4 the exact quotient of the doubles
  is just above 8, with ceiling 9; line 88 rounds the quotient to the double 8 before
  \<open>Math.ceil\<close> and the minimum is 8.
\<close>

theorem minLines_formula_counterexample:
  "buildRowTextData shortCells = Some shortRow
   \<and> minLines shortRow
       \<noteq> max 1 \<lceil>(160 - avgFixedOverhead shortRow) / avgLineUnitHeight shortRow\<rceil>"
  by (simp add: shortCells_measured shortRow_exact) (simp add: shortRow_def)

text \<open>
  Claim C8, amended: whenever the computed minimum line count of a row is a finite
  number, it is \<open>max(1, \<lceil>q\<rceil>)\<close> for the quotient
  \<open>q = (160 - avgFixedOverhead) / avgLineUnitHeight\<close> as binary64 arithmetic gives it,
  the averages being the sums over the row's cells from the left divided by their
  number (1 when the quotient is a negative zero or \<open>-Infinity\<close>), and therefore at
  least 1.
\<close>

theorem minLines_formula_amended:
  assumes "buildRowTextData cellData = Some row"
  shows "cells row = cellData \<and> 1 \<le> minLines row
         \<and> (case minQuotient64 row of
               Fin q \<Rightarrow> minLines row = max 1 \<lceil>q\<rceil>
             | NegZero \<Rightarrow> minLines row = 1
             | NInf \<Rightarrow> minLines row = 1
             | PInf \<Rightarrow> False
             | NaN \<Rightarrow> False)"
proof -
  from assms have ne: "cellData \<noteq> []"
    by (auto simp: buildRowTextData_def)
  let ?q = "div64 (sub64 (Fin 160)
                (div64 (foldl (\<lambda>sum c. add64 sum (Fin (cellPadding c))) (Fin 0) cellData)
                       (Fin (of_nat (length cellData)))))
              (div64 (foldl (\<lambda>sum c. add64 sum (Fin (lineHeight c))) (Fin 0) cellData)
                     (Fin (of_nat (length cellData))))"
  from assms ne obtain m where m: "maxOneCeil ?q = Some m"
    and row: "row = \<lparr>cells = cellData, maxNaturalLines = Max (set (map naturalLines cellData)),
                     minLines = m\<rparr>"
    by (auto simp: buildRowTextData_def Let_def split: option.splits)
  from row have q: "minQuotient64 row = ?q"
    by (simp add: minQuotient64_def rowAvgPadding64_def rowAvgLineHeight64_def)
  from m row show ?thesis
    unfolding q by (cases ?q) (auto simp: maxOneCeil_def)
qed

theorem minLines_formula_amended_witness:
  "buildRowTextData scenarioACells = Some (scenarioA ! 0)
   \<and> minQuotient64 (scenarioA ! 0) = Fin (8106479329266893 / 2 ^ 50)
   \<and> minLines (scenarioA ! 0) = max 1 \<lceil>8106479329266893 / 2 ^ 50 :: rat\<rceil>
   \<and> 1 \<le> minLines (scenarioA ! 0)"
proof -
  from minLines_formula_amended [OF scenarioA_measured]
  have "1 \<le> minLines (scenarioA ! 0)"
    and "minLines (scenarioA ! 0) = max 1 \<lceil>8106479329266893 / 2 ^ 50 :: rat\<rceil>"
    by (simp_all add: scenarioA_quotient64)
  with scenarioA_measured scenarioA_quotient64 show ?thesis by simp
qed

end
